theory Spec2Isabelle
  imports Complex_Main "HOL-Library.Word" "HOL-Library.Log_Nat"
begin

section \<open>Path steps of \<^verbatim>\<open>addresses.ts\<close>\<close>

text \<open>
  \<^verbatim>\<open>export type PathToProp = Array<string | number>\<close>

  A JavaScript string is a sequence of 16-bit code units. A JavaScript number is an IEEE
  double: \<^verbatim>\<open>NaN\<close>, \<^verbatim>\<open>Infinity\<close>, \<^verbatim>\<open>-Infinity\<close>, \<^verbatim>\<open>-0\<close>, or a finite value, which is a
  rational number. \<open>Finite q\<close> is the finite number of value \<open>q\<close>, and \<open>Finite 0\<close> is
  \<^verbatim>\<open>+0\<close>. The rationals that are values of doubles are those that \<open>is_double\<close> accepts,
  below.
\<close>

type_synonym code_unit = "16 word"

type_synonym jsstring = "code_unit list"

definition js :: "string \<Rightarrow> jsstring" where
  "js s = map (\<lambda>c. of_nat (of_char c)) s"

datatype number = Finite rat | NegZero | NaN | PosInfinity | NegInfinity

datatype step = Str jsstring | Num number

type_synonym PathToProp = "step list"

text \<open>
  \<^verbatim>\<open>a === b\<close> on numbers: \<^verbatim>\<open>NaN\<close> equals nothing, itself included, and \<^verbatim>\<open>+0\<close> and
  \<^verbatim>\<open>-0\<close> equal each other.
\<close>

fun number_equal :: "number \<Rightarrow> number \<Rightarrow> bool" where
  "number_equal NaN y = False"
| "number_equal x NaN = False"
| "number_equal (Finite a) (Finite b) = (a = b)"
| "number_equal (Finite a) NegZero = (a = 0)"
| "number_equal NegZero (Finite b) = (b = 0)"
| "number_equal NegZero NegZero = True"
| "number_equal PosInfinity PosInfinity = True"
| "number_equal NegInfinity NegInfinity = True"
| "number_equal x y = False"

text \<open>
  The Number value for a rational, as ECMAScript defines it: the double nearest to it, the
  one with the even significand when two are equally near, \<^verbatim>\<open>Infinity\<close> from
  \<open>2\<^sup>1\<^sup>0\<^sup>2\<^sup>4\<close> on. A double is \<open>m * 2\<^sup>e\<close> with \<open>m < 2\<^sup>5\<^sup>3\<close> and \<open>-1074 \<le> e\<close>; for a
  positive rational \<open>r\<close> with \<open>2\<^sup>l \<le> r < 2\<^sup>l\<^sup>+\<^sup>1\<close> the doubles around it are the multiples
  of \<open>2\<^sup>e\<close> for \<open>e = max (l - 52) (-1074)\<close>.
\<close>

definition floor_log2 :: "rat \<Rightarrow> int" where
  "floor_log2 r =
     (let (a, b) = quotient_of r;
          d = bitlen a - bitlen b
      in if 2 powi d \<le> r then d else d - 1)"

definition round_half_even :: "rat \<Rightarrow> int" where
  "round_half_even q =
     (let f = \<lfloor>q\<rfloor>;
          d = q - of_int f
      in if d < 1 / 2 then f
         else if 1 / 2 < d then f + 1
         else if even f then f else f + 1)"

definition round_positive :: "rat \<Rightarrow> number" where
  "round_positive r =
     (let e = max (floor_log2 r - 52) (- 1074);
          m = round_half_even (r / 2 powi e);
          v = of_int m * 2 powi e
      in if 2 ^ 1024 \<le> v then PosInfinity else Finite v)"

text \<open>Unary minus on numbers.\<close>

fun negate :: "number \<Rightarrow> number" where
  "negate (Finite v) = (if v = 0 then NegZero else Finite (- v))"
| "negate NegZero = Finite 0"
| "negate NaN = NaN"
| "negate PosInfinity = NegInfinity"
| "negate NegInfinity = PosInfinity"

definition to_double :: "rat \<Rightarrow> number" where
  "to_double r =
     (if r = 0 then Finite 0
      else if 0 < r then round_positive r
      else negate (round_positive (- r)))"

text \<open>The values of the finite doubles: the rationals that rounding leaves as they are.\<close>

definition is_double :: "rat \<Rightarrow> bool" where
  "is_double q = (to_double q = Finite q)"

text \<open>
  \<^verbatim>\<open>path[i]\<close> is the step at index \<open>i\<close>, or \<^verbatim>\<open>undefined\<close> (here \<open>None\<close>) when \<open>i\<close> is
  out of range.
\<close>

definition elem_at :: "'a list \<Rightarrow> nat \<Rightarrow> 'a option" where
  "elem_at xs i = (if i < length xs then Some (xs ! i) else None)"

text \<open>
  \<^verbatim>\<open>x === y\<close> where each side is a step or \<^verbatim>\<open>undefined\<close>: values of different types are
  never equal, strings are equal when their code units are, numbers as above.
\<close>

fun strict_equals :: "step option \<Rightarrow> step option \<Rightarrow> bool" where
  "strict_equals None None = True"
| "strict_equals (Some (Str a)) (Some (Str b)) = (a = b)"
| "strict_equals (Some (Num a)) (Some (Num b)) = number_equal a b"
| "strict_equals x y = False"

section \<open>Path comparison\<close>

text \<open>
  \<^verbatim>\<open>
  export function doesPathStartWith(path, pathPrefix) {
    return pathPrefix.every((pathPart, i) => pathPart === path[i])
  }
  \<close>
\<close>

definition doesPathStartWith :: "PathToProp \<Rightarrow> PathToProp \<Rightarrow> bool" where
  "doesPathStartWith path pathPrefix =
     list_all (\<lambda>(i, pathPart). strict_equals (Some pathPart) (elem_at path i))
       (enumerate 0 pathPrefix)"

text \<open>
  \<^verbatim>\<open>
  export function arePathsEqual(pathToPropA, pathToPropB) {
    if (pathToPropA.length !== pathToPropB.length) return false
    for (let i = 0; i < pathToPropA.length; i++) {
      if (pathToPropA[i] !== pathToPropB[i]) return false
    }
    return true
  }
  \<close>
  The \<^verbatim>\<open>for\<close> loop is \<open>arePathsEqual_loop\<close>, with the loop variable as its argument.
\<close>

function arePathsEqual_loop :: "PathToProp \<Rightarrow> PathToProp \<Rightarrow> nat \<Rightarrow> bool" where
  "arePathsEqual_loop pathToPropA pathToPropB i =
     (if i < length pathToPropA
      then (if \<not> strict_equals (elem_at pathToPropA i) (elem_at pathToPropB i) then False
            else arePathsEqual_loop pathToPropA pathToPropB (Suc i))
      else True)"
  by pat_completeness auto
termination
  by (relation "measure (\<lambda>(a, b, i). length a - i)") auto

declare arePathsEqual_loop.simps [simp del]

definition arePathsEqual :: "PathToProp \<Rightarrow> PathToProp \<Rightarrow> bool" where
  "arePathsEqual pathToPropA pathToPropB =
     (if length pathToPropA \<noteq> length pathToPropB then False
      else arePathsEqual_loop pathToPropA pathToPropB 0)"

section \<open>Common root\<close>

text \<open>
  \<^verbatim>\<open>
  export function commonRootOfPathsToProps(pathsToProps) {
    const commonPathToProp = []
    while (true) {
      const i = commonPathToProp.length
      let candidatePathPart = pathsToProps[0]?.[i]
      if (candidatePathPart === undefined) return commonPathToProp
      for (const pathToProp of pathsToProps) {
        if (candidatePathPart !== pathToProp[i]) {
          return commonPathToProp
        }
      }
      commonPathToProp.push(candidatePathPart)
    }
  }
  \<close>
  The \<^verbatim>\<open>while (true)\<close> loop is \<open>commonRoot_loop\<close>, with the accumulator as its
  argument; it is total because every round that continues has read one more step of the
  first path. The inner \<^verbatim>\<open>for\<close> loop returns as soon as one path disagrees with the
  candidate, which is \<open>list_ex\<close> of the disagreement.
\<close>

function commonRoot_loop :: "PathToProp list \<Rightarrow> PathToProp \<Rightarrow> PathToProp" where
  "commonRoot_loop pathsToProps commonPathToProp =
     (let i = length commonPathToProp in
      case (case elem_at pathsToProps 0 of None \<Rightarrow> None | Some first \<Rightarrow> elem_at first i) of
        None \<Rightarrow> commonPathToProp
      | Some candidatePathPart \<Rightarrow>
          if list_ex (\<lambda>pathToProp. \<not> strict_equals (Some candidatePathPart) (elem_at pathToProp i))
               pathsToProps
          then commonPathToProp
          else commonRoot_loop pathsToProps (commonPathToProp @ [candidatePathPart]))"
  by pat_completeness auto
termination
  by (relation "measure (\<lambda>(ps, c). length (hd ps) - length c)")
     (auto simp: elem_at_def hd_conv_nth split: if_splits)

declare commonRoot_loop.simps [simp del]

definition commonRootOfPathsToProps :: "PathToProp list \<Rightarrow> PathToProp" where
  "commonRootOfPathsToProps pathsToProps = commonRoot_loop pathsToProps []"

section \<open>Values and property access\<close>

text \<open>
  The values \<^verbatim>\<open>getValueByPropPath\<close> walks: \<^verbatim>\<open>undefined\<close>, \<^verbatim>\<open>null\<close>, the primitives,
  arrays, objects, and functions, which an object can inherit and which are named here by
  the property that holds them. \<^verbatim>\<open>SerializableMap\<close> and \<^verbatim>\<open>SerializableValue\<close> are
  declared in \<^verbatim>\<open>utils/types\<close>, another file of the repository; the function reads
  \<open>cur\<close> as \<^verbatim>\<open>$IntentionalAny\<close>, so the model takes every value.

  \<^verbatim>\<open>cur[key]\<close> on an object reads the object's own property of that name and, when it
  has none, the property it inherits along its prototype chain. An object is therefore
  two tables, each a list of names with values read with \<open>map_of\<close>: its own properties,
  and the properties it inherits.
\<close>

datatype jsval =
    JUndefined
  | JNull
  | JBool bool
  | JNum number
  | JStr jsstring
  | JArr "jsval list"
  | JObj "(jsstring \<times> jsval) list" "(jsstring \<times> jsval) list"
  | JFunction jsstring

text \<open>
  \<^verbatim>\<open>TypeError\<close> is what reading a property of \<^verbatim>\<open>undefined\<close> or \<^verbatim>\<open>null\<close> throws.
  \<open>NotModelled\<close> marks the property reads this model does not describe: a property of a
  primitive's wrapper object or of a function, a string-named property of an array, and a
  number-named property of an object.
\<close>

datatype failure = TypeError | NotModelled

fun typeof :: "jsval \<Rightarrow> string" where
  "typeof JUndefined = ''undefined''"
| "typeof JNull = ''object''"
| "typeof (JBool b) = ''boolean''"
| "typeof (JNum n) = ''number''"
| "typeof (JStr s) = ''string''"
| "typeof (JArr xs) = ''object''"
| "typeof (JObj own inherited) = ''object''"
| "typeof (JFunction f) = ''function''"

fun typeof_step :: "step \<Rightarrow> string" where
  "typeof_step (Str s) = ''string''"
| "typeof_step (Num n) = ''number''"

fun isArray :: "jsval \<Rightarrow> bool" where
  "isArray (JArr xs) = True"
| "isArray v = False"

text \<open>
  \<^verbatim>\<open>xs[n]\<close> on an array: the element when \<open>n\<close> is an index in range (\<^verbatim>\<open>-0\<close> is the index
  0), \<^verbatim>\<open>undefined\<close> for every other number: a negative one, one past the end, one with a
  fractional part, \<^verbatim>\<open>NaN\<close>, \<^verbatim>\<open>Infinity\<close> and \<^verbatim>\<open>-Infinity\<close>.
\<close>

fun array_get :: "jsval list \<Rightarrow> number \<Rightarrow> jsval" where
  "array_get xs (Finite q) =
     (if q = of_int \<lfloor>q\<rfloor> \<and> 0 \<le> q
      then (case elem_at xs (nat \<lfloor>q\<rfloor>) of None \<Rightarrow> JUndefined | Some v \<Rightarrow> v)
      else JUndefined)"
| "array_get xs NegZero = (case elem_at xs 0 of None \<Rightarrow> JUndefined | Some v \<Rightarrow> v)"
| "array_get xs n = JUndefined"

definition object_get :: "(jsstring \<times> jsval) list \<Rightarrow> (jsstring \<times> jsval) list \<Rightarrow> jsstring \<Rightarrow> jsval" where
  "object_get own inherited name =
     (case map_of own name of
        Some v \<Rightarrow> v
      | None \<Rightarrow> (case map_of inherited name of Some v \<Rightarrow> v | None \<Rightarrow> JUndefined))"

text \<open>\<^verbatim>\<open>cur[key]\<close>.\<close>

fun get_property :: "jsval \<Rightarrow> step \<Rightarrow> failure + jsval" where
  "get_property JUndefined key = Inl TypeError"
| "get_property JNull key = Inl TypeError"
| "get_property (JArr xs) (Num n) = Inr (array_get xs n)"
| "get_property (JObj own inherited) (Str name) = Inr (object_get own inherited name)"
| "get_property cur key = Inl NotModelled"

text \<open>
  The function-valued properties of a standard \<^verbatim>\<open>Object.prototype\<close>. Its one other
  property is the accessor \<^verbatim>\<open>__proto__\<close>, which returns the prototype of the object it
  is read from: \<^verbatim>\<open>null\<close> when read from \<^verbatim>\<open>Object.prototype\<close> itself, which inherits
  nothing.
\<close>

definition Object_prototype_functions :: "jsstring list" where
  "Object_prototype_functions =
     map js [''constructor'', ''__defineGetter__'', ''__defineSetter__'', ''hasOwnProperty'',
             ''__lookupGetter__'', ''__lookupSetter__'', ''isPrototypeOf'',
             ''propertyIsEnumerable'', ''toString'', ''valueOf'', ''toLocaleString'']"





section \<open>Value resolution\<close>

text \<open>
  \<^verbatim>\<open>
  export const getValueByPropPath = (pathToProp, rootVal) => {
    const p = [...pathToProp]
    let cur = rootVal
    while (p.length !== 0) {
      const key = p.shift()!
      if (cur !== null && typeof cur === 'object') {
        if (Array.isArray(cur)) {
          if (typeof key === 'number') {
            cur = cur[key]
          } else {
            return undefined
          }
        } else {
          if (typeof key === 'string') {
            cur = cur[key]
          } else {
            return undefined
          }
        }
      } else {
        return undefined
      }
    }
    return cur
  }
  \<close>
  The \<^verbatim>\<open>while\<close> loop is \<open>getValueByPropPath_loop\<close> on the steps still in \<open>p\<close> and on
  \<open>cur\<close>. A result \<open>Inl\<close> is an exception leaving the function.
\<close>

fun getValueByPropPath_loop :: "PathToProp \<Rightarrow> jsval \<Rightarrow> failure + jsval" where
  "getValueByPropPath_loop [] cur = Inr cur"
| "getValueByPropPath_loop (key # p) cur =
     (if cur \<noteq> JNull \<and> typeof cur = ''object'' then
        (if isArray cur then
           (if typeof_step key = ''number'' then
              (case get_property cur key of
                 Inl e \<Rightarrow> Inl e
               | Inr v \<Rightarrow> getValueByPropPath_loop p v)
            else Inr JUndefined)
         else
           (if typeof_step key = ''string'' then
              (case get_property cur key of
                 Inl e \<Rightarrow> Inl e
               | Inr v \<Rightarrow> getValueByPropPath_loop p v)
            else Inr JUndefined))
      else Inr JUndefined)"

definition getValueByPropPath :: "PathToProp \<Rightarrow> jsval \<Rightarrow> failure + jsval" where
  "getValueByPropPath pathToProp rootVal = getValueByPropPath_loop pathToProp rootVal"

section \<open>Facts about strict equality and the comparison loops\<close>

lemma number_equal_sym: "number_equal x y = number_equal y x"
  by (cases x; cases y) auto

lemma number_equal_trans: "number_equal x y \<Longrightarrow> number_equal y z \<Longrightarrow> number_equal x z"
  by (cases x; cases y; cases z) auto

lemma number_equal_refl: "x \<noteq> NaN \<Longrightarrow> number_equal x x"
  by (cases x) auto

lemma strict_equals_sym: "strict_equals x y = strict_equals y x"
  by (induction x y rule: strict_equals.induct) (auto simp: number_equal_sym)

lemma strict_equals_trans:
  "strict_equals x y \<Longrightarrow> strict_equals y z \<Longrightarrow> strict_equals x z"
proof (cases x; cases y; cases z; simp)
  fix a b c
  show "strict_equals (Some a) (Some b) \<Longrightarrow> strict_equals (Some b) (Some c)
          \<Longrightarrow> strict_equals (Some a) (Some c)"
    by (cases a; cases b; cases c) (auto dest: number_equal_trans)
qed

lemma strict_equals_refl: "x \<noteq> Some (Num NaN) \<Longrightarrow> strict_equals x x"
proof (cases x)
  case None
  then show ?thesis by simp
next
  case (Some s)
  assume "x \<noteq> Some (Num NaN)"
  with Some show ?thesis by (cases s) (auto simp: number_equal_refl)
qed

lemma strict_equals_Some_None [simp]: "\<not> strict_equals (Some s) None"
  by (cases s) auto

lemma doesPathStartWith_iff:
  "doesPathStartWith path pathPrefix \<longleftrightarrow>
     (\<forall>i<length pathPrefix. strict_equals (Some (pathPrefix ! i)) (elem_at path i))"
  by (auto simp: doesPathStartWith_def list_all_iff in_set_enumerate_eq)

lemma arePathsEqual_loop_iff:
  "arePathsEqual_loop a b i \<longleftrightarrow>
     (\<forall>j. i \<le> j \<and> j < length a \<longrightarrow> strict_equals (elem_at a j) (elem_at b j))"
proof (induction a b i rule: arePathsEqual_loop.induct)
  case (1 a b i)
  show ?case
  proof (cases "i < length a")
    case False
    then show ?thesis by (subst arePathsEqual_loop.simps) auto
  next
    case True
    show ?thesis
    proof (cases "strict_equals (elem_at a i) (elem_at b i)")
      case False
      with True show ?thesis by (subst arePathsEqual_loop.simps) auto
    next
      case eq: True
      have "arePathsEqual_loop a b i = arePathsEqual_loop a b (Suc i)"
        using True eq by (subst arePathsEqual_loop.simps) simp
      also have "\<dots> \<longleftrightarrow> (\<forall>j. Suc i \<le> j \<and> j < length a \<longrightarrow> strict_equals (elem_at a j) (elem_at b j))"
        using "1.IH" True eq by simp
      also have "\<dots> \<longleftrightarrow> (\<forall>j. i \<le> j \<and> j < length a \<longrightarrow> strict_equals (elem_at a j) (elem_at b j))"
      proof (intro iffI allI impI)
        fix j
        assume h: "\<forall>j. Suc i \<le> j \<and> j < length a \<longrightarrow> strict_equals (elem_at a j) (elem_at b j)"
          and j: "i \<le> j \<and> j < length a"
        show "strict_equals (elem_at a j) (elem_at b j)"
        proof (cases "j = i")
          case True
          with eq show ?thesis by simp
        next
          case False
          with j have "Suc i \<le> j \<and> j < length a" by simp
          with h show ?thesis by blast
        qed
      next
        fix j
        assume "\<forall>j. i \<le> j \<and> j < length a \<longrightarrow> strict_equals (elem_at a j) (elem_at b j)"
          and "Suc i \<le> j \<and> j < length a"
        then show "strict_equals (elem_at a j) (elem_at b j)" by simp
      qed
      finally show ?thesis .
    qed
  qed
qed

lemma arePathsEqual_iff:
  "arePathsEqual a b \<longleftrightarrow>
     length a = length b \<and> (\<forall>i<length a. strict_equals (Some (a ! i)) (Some (b ! i)))"
  by (auto simp: arePathsEqual_def arePathsEqual_loop_iff elem_at_def)

lemma doesPathStartWith_length:
  "doesPathStartWith path pathPrefix \<Longrightarrow> length pathPrefix \<le> length path"
proof (rule ccontr)
  assume h: "doesPathStartWith path pathPrefix" and "\<not> length pathPrefix \<le> length path"
  then have lt: "length path < length pathPrefix" by simp
  from h lt have "strict_equals (Some (pathPrefix ! length path)) (elem_at path (length path))"
    by (simp add: doesPathStartWith_iff)
  then show False by (simp add: elem_at_def)
qed

section \<open>Path comparison: the claims\<close>

text \<open>
  C5, amended. \<open>arePathsEqual a b\<close> holds exactly when \<open>a\<close> and \<open>b\<close> have the same
  length and the steps at each index are strictly equal (\<^verbatim>\<open>===\<close>). A string step never
  equals a number step, so \<^verbatim>\<open>arePathsEqual([1,'a'], ['1','a'])\<close> is false. The relation
  is symmetric. It is reflexive on the paths that hold no \<^verbatim>\<open>NaN\<close> step; a path with a
  \<^verbatim>\<open>NaN\<close> step is not equal to itself, since \<^verbatim>\<open>NaN !== NaN\<close>.
\<close>

theorem arePathsEqual_spec:
  "(arePathsEqual a b \<longleftrightarrow>
      length a = length b \<and> (\<forall>i<length a. strict_equals (Some (a ! i)) (Some (b ! i))))
   \<and> \<not> strict_equals (Some (Str s)) (Some (Num n))
   \<and> \<not> arePathsEqual [Num (Finite 1), Str (js ''a'')] [Str (js ''1''), Str (js ''a'')]
   \<and> (arePathsEqual a b \<longleftrightarrow> arePathsEqual b a)
   \<and> (Num NaN \<notin> set a \<longrightarrow> arePathsEqual a a)"
proof (intro conjI)
  show "arePathsEqual a b \<longleftrightarrow>
      length a = length b \<and> (\<forall>i<length a. strict_equals (Some (a ! i)) (Some (b ! i)))"
    by (rule arePathsEqual_iff)
  show "\<not> strict_equals (Some (Str s)) (Some (Num n))" by simp
  show "\<not> arePathsEqual [Num (Finite 1), Str (js ''a'')] [Str (js ''1''), Str (js ''a'')]"
    by (simp add: arePathsEqual_def arePathsEqual_loop.simps elem_at_def)
  show "arePathsEqual a b \<longleftrightarrow> arePathsEqual b a"
    using strict_equals_sym by (auto simp: arePathsEqual_iff)
  show "Num NaN \<notin> set a \<longrightarrow> arePathsEqual a a"
  proof
    assume "Num NaN \<notin> set a"
    then have "\<forall>i<length a. Some (a ! i) \<noteq> Some (Num NaN)"
      by (metis nth_mem option.inject)
    then show "arePathsEqual a a"
      by (simp add: arePathsEqual_iff strict_equals_refl)
  qed
qed

text \<open>The path \<^verbatim>\<open>[1, 'a']\<close> has no \<^verbatim>\<open>NaN\<close> step and equals itself.\<close>

theorem arePathsEqual_spec_witness:
  "Num NaN \<notin> set [Num (Finite 1), Str (js ''a'')]
   \<and> arePathsEqual [Num (Finite 1), Str (js ''a'')] [Num (Finite 1), Str (js ''a'')]"
proof -
  have nn: "Num NaN \<notin> set [Num (Finite 1), Str (js ''a'')]" by simp
  from nn arePathsEqual_spec [of "[Num (Finite 1), Str (js ''a'')]" "[Num (Finite 1), Str (js ''a'')]"]
  show ?thesis by blast
qed

text \<open>
  C5 as stated fails: \<^verbatim>\<open>arePathsEqual([NaN], [NaN])\<close> compares \<^verbatim>\<open>NaN !== NaN\<close> at
  index 0 and returns false, so the relation is not reflexive on every path.
\<close>

theorem arePathsEqual_reflexive_counterexample:
  "\<not> arePathsEqual [Num NaN] [Num NaN]"
  by (simp add: arePathsEqual_def arePathsEqual_loop.simps elem_at_def)

text \<open>
  C4, amended. \<open>doesPathStartWith path pathPrefix\<close> holds exactly when every step of the
  prefix strictly equals \<^verbatim>\<open>path[i]\<close> at its own index \<open>i\<close>. The empty prefix is a prefix
  of every path, the empty path included. A prefix longer than the path is never a prefix
  of it, as in \<^verbatim>\<open>doesPathStartWith(['a'], ['a','b'])\<close>. Every path that holds no
  \<^verbatim>\<open>NaN\<close> step is a prefix of itself.
\<close>

theorem doesPathStartWith_spec:
  "(doesPathStartWith path pathPrefix \<longleftrightarrow>
      (\<forall>i<length pathPrefix. strict_equals (Some (pathPrefix ! i)) (elem_at path i)))
   \<and> doesPathStartWith path []
   \<and> (Num NaN \<notin> set path \<longrightarrow> doesPathStartWith path path)
   \<and> (length path < length pathPrefix \<longrightarrow> \<not> doesPathStartWith path pathPrefix)
   \<and> \<not> doesPathStartWith [Str (js ''a'')] [Str (js ''a''), Str (js ''b'')]"
proof (intro conjI)
  show "doesPathStartWith path pathPrefix \<longleftrightarrow>
      (\<forall>i<length pathPrefix. strict_equals (Some (pathPrefix ! i)) (elem_at path i))"
    by (rule doesPathStartWith_iff)
  show "doesPathStartWith path []" by (simp add: doesPathStartWith_def)
  show "Num NaN \<notin> set path \<longrightarrow> doesPathStartWith path path"
  proof
    assume "Num NaN \<notin> set path"
    then have "\<forall>i<length path. Some (path ! i) \<noteq> Some (Num NaN)"
      by (metis nth_mem option.inject)
    then show "doesPathStartWith path path"
      by (simp add: doesPathStartWith_iff elem_at_def strict_equals_refl)
  qed
  show "length path < length pathPrefix \<longrightarrow> \<not> doesPathStartWith path pathPrefix"
    using doesPathStartWith_length [of path pathPrefix] by auto
  show "\<not> doesPathStartWith [Str (js ''a'')] [Str (js ''a''), Str (js ''b'')]"
    using doesPathStartWith_length [of "[Str (js ''a'')]" "[Str (js ''a''), Str (js ''b'')]"] by auto
qed

text \<open>
  \<^verbatim>\<open>['a', 0]\<close> has no \<^verbatim>\<open>NaN\<close> step and starts with itself; the shorter \<^verbatim>\<open>['a']\<close>
  does not start with it.
\<close>

theorem doesPathStartWith_spec_witness:
  "Num NaN \<notin> set [Str (js ''a''), Num (Finite 0)]
   \<and> doesPathStartWith [Str (js ''a''), Num (Finite 0)] [Str (js ''a''), Num (Finite 0)]
   \<and> length [Str (js ''a'')] < length [Str (js ''a''), Num (Finite 0)]
   \<and> \<not> doesPathStartWith [Str (js ''a'')] [Str (js ''a''), Num (Finite 0)]"
proof -
  have nn: "Num NaN \<notin> set [Str (js ''a''), Num (Finite 0)]" by simp
  have len: "length [Str (js ''a'')] < length [Str (js ''a''), Num (Finite 0)]" by simp
  from nn len
    doesPathStartWith_spec [of "[Str (js ''a''), Num (Finite 0)]" "[Str (js ''a''), Num (Finite 0)]"]
    doesPathStartWith_spec [of "[Str (js ''a'')]" "[Str (js ''a''), Num (Finite 0)]"]
  show ?thesis by blast
qed

text \<open>
  C4 as stated fails: \<^verbatim>\<open>doesPathStartWith([NaN], [NaN])\<close> is false, so not every path is a
  prefix of itself.
\<close>

theorem doesPathStartWith_self_counterexample:
  "\<not> doesPathStartWith [Num NaN] [Num NaN]"
  by (simp add: doesPathStartWith_def elem_at_def)

text \<open>
  C9. Two paths are equal by \<open>arePathsEqual\<close> exactly when each starts with the other.
  This holds for every pair of paths, \<^verbatim>\<open>NaN\<close> steps included: a path with a \<^verbatim>\<open>NaN\<close>
  step neither equals itself nor starts with itself.
\<close>

theorem arePathsEqual_mutual_prefix:
  "arePathsEqual a b \<longleftrightarrow> doesPathStartWith a b \<and> doesPathStartWith b a"
proof
  assume eq: "arePathsEqual a b"
  then have len: "length a = length b"
    and el: "\<forall>i<length a. strict_equals (Some (a ! i)) (Some (b ! i))"
    by (simp_all add: arePathsEqual_iff)
  from len el have "doesPathStartWith b a"
    by (simp add: doesPathStartWith_iff elem_at_def)
  moreover from len el have "doesPathStartWith a b"
    using strict_equals_sym by (simp add: doesPathStartWith_iff elem_at_def)
  ultimately show "doesPathStartWith a b \<and> doesPathStartWith b a" by simp
next
  assume h: "doesPathStartWith a b \<and> doesPathStartWith b a"
  then have len: "length a = length b"
    using doesPathStartWith_length [of a b] doesPathStartWith_length [of b a] by simp
  from h have "\<forall>i<length a. strict_equals (Some (a ! i)) (elem_at b i)"
    by (simp add: doesPathStartWith_iff)
  with len show "arePathsEqual a b"
    by (simp add: arePathsEqual_iff elem_at_def)
qed

text \<open>
  \<^verbatim>\<open>['a', 2]\<close> against itself, and against its proper prefix \<^verbatim>\<open>['a']\<close>.
\<close>

theorem arePathsEqual_mutual_prefix_witness:
  "arePathsEqual [Str (js ''a''), Num (Finite 2)] [Str (js ''a''), Num (Finite 2)]
   \<and> \<not> arePathsEqual [Str (js ''a''), Num (Finite 2)] [Str (js ''a'')]"
  using arePathsEqual_mutual_prefix [of "[Str (js ''a''), Num (Finite 2)]" "[Str (js ''a''), Num (Finite 2)]"]
    arePathsEqual_mutual_prefix [of "[Str (js ''a''), Num (Finite 2)]" "[Str (js ''a'')]"]
  by (simp add: doesPathStartWith_iff elem_at_def less_Suc_eq)

text \<open>
  C10. The prefix relation is transitive: when \<open>p\<close> starts with \<open>a\<close> and \<open>a\<close> starts
  with \<open>b\<close>, then \<open>p\<close> starts with \<open>b\<close>.
\<close>

theorem doesPathStartWith_trans:
  assumes pa: "doesPathStartWith p a" and ab: "doesPathStartWith a b"
  shows "doesPathStartWith p b"
proof -
  have "strict_equals (Some (b ! i)) (elem_at p i)" if i: "i < length b" for i
  proof -
    from ab i have 1: "strict_equals (Some (b ! i)) (elem_at a i)"
      by (simp add: doesPathStartWith_iff)
    from ab have "length b \<le> length a" by (rule doesPathStartWith_length)
    with i have ia: "i < length a" by simp
    with pa have 2: "strict_equals (Some (a ! i)) (elem_at p i)"
      by (simp add: doesPathStartWith_iff)
    from ia have "elem_at a i = Some (a ! i)" by (simp add: elem_at_def)
    with 1 2 show ?thesis using strict_equals_trans by metis
  qed
  then show ?thesis by (simp add: doesPathStartWith_iff)
qed

text \<open>
  \<^verbatim>\<open>['a', 0, 'c']\<close> starts with \<^verbatim>\<open>['a', -0]\<close>, which starts with \<^verbatim>\<open>['a']\<close>.
\<close>

theorem doesPathStartWith_trans_witness:
  "doesPathStartWith [Str (js ''a''), Num (Finite 1), Str (js ''c'')] [Str (js ''a''), Num NegZero] = False
   \<and> doesPathStartWith [Str (js ''a''), Num (Finite 0), Str (js ''c'')] [Str (js ''a''), Num NegZero]
   \<and> doesPathStartWith [Str (js ''a''), Num NegZero] [Str (js ''a'')]
   \<and> doesPathStartWith [Str (js ''a''), Num (Finite 0), Str (js ''c'')] [Str (js ''a'')]"
proof -
  have 1: "doesPathStartWith [Str (js ''a''), Num (Finite 0), Str (js ''c'')] [Str (js ''a''), Num NegZero]"
    by (simp add: doesPathStartWith_def elem_at_def)
  have 2: "doesPathStartWith [Str (js ''a''), Num NegZero] [Str (js ''a'')]"
    by (simp add: doesPathStartWith_def elem_at_def)
  have 3: "doesPathStartWith [Str (js ''a''), Num (Finite 1), Str (js ''c'')] [Str (js ''a''), Num NegZero] = False"
    by (simp add: doesPathStartWith_def elem_at_def)
  from 1 2 3 doesPathStartWith_trans [OF 1 2] show ?thesis by simp
qed

section \<open>Common root: the loop\<close>

lemma commonRoot_loop_stop_first:
  "(case elem_at ps 0 of None \<Rightarrow> None | Some first \<Rightarrow> elem_at first (length c)) = None
   \<Longrightarrow> commonRoot_loop ps c = c"
  by (subst commonRoot_loop.simps) (simp add: Let_def)

lemma commonRoot_loop_stop_mismatch:
  "(case elem_at ps 0 of None \<Rightarrow> None | Some first \<Rightarrow> elem_at first (length c)) = Some cand
   \<Longrightarrow> list_ex (\<lambda>p. \<not> strict_equals (Some cand) (elem_at p (length c))) ps
   \<Longrightarrow> commonRoot_loop ps c = c"
  by (subst commonRoot_loop.simps) (simp add: Let_def)

lemma commonRoot_loop_continue:
  "(case elem_at ps 0 of None \<Rightarrow> None | Some first \<Rightarrow> elem_at first (length c)) = Some cand
   \<Longrightarrow> \<not> list_ex (\<lambda>p. \<not> strict_equals (Some cand) (elem_at p (length c))) ps
   \<Longrightarrow> commonRoot_loop ps c = commonRoot_loop ps (c @ [cand])"
  by (subst commonRoot_loop.simps) (simp add: Let_def)

lemma candidate_Some:
  "(case elem_at ps 0 of None \<Rightarrow> None | Some first \<Rightarrow> elem_at first i) = Some cand
   \<longleftrightarrow> ps \<noteq> [] \<and> i < length (hd ps) \<and> cand = hd ps ! i"
  by (cases ps) (auto simp: elem_at_def)

lemma candidate_None:
  "(case elem_at ps 0 of None \<Rightarrow> None | Some first \<Rightarrow> elem_at first i) = None
   \<longleftrightarrow> ps = [] \<or> length (hd ps) \<le> i"
  by (cases ps) (auto simp: elem_at_def)

lemma doesPathStartWith_snoc:
  "doesPathStartWith p (c @ [x]) \<longleftrightarrow>
     doesPathStartWith p c \<and> strict_equals (Some x) (elem_at p (length c))"
  by (auto simp: doesPathStartWith_iff nth_append less_Suc_eq)

lemma commonRoot_loop_common:
  "\<forall>p\<in>set ps. doesPathStartWith p c
   \<Longrightarrow> \<forall>p\<in>set ps. doesPathStartWith p (commonRoot_loop ps c)"
proof (induction ps c rule: commonRoot_loop.induct)
  case (1 ps c)
  let ?cand = "case elem_at ps 0 of None \<Rightarrow> None | Some first \<Rightarrow> elem_at first (length c)"
  show ?case
  proof (cases ?cand)
    case None
    then show ?thesis using "1.prems" by (simp add: commonRoot_loop_stop_first)
  next
    case (Some cand)
    show ?thesis
    proof (cases "list_ex (\<lambda>p. \<not> strict_equals (Some cand) (elem_at p (length c))) ps")
      case True
      with Some show ?thesis using "1.prems" by (simp add: commonRoot_loop_stop_mismatch)
    next
      case False
      then have "\<forall>p\<in>set ps. doesPathStartWith p (c @ [cand])"
        using "1.prems" by (simp add: doesPathStartWith_snoc list_ex_iff)
      with "1.IH" [OF refl Some False]
      have "\<forall>p\<in>set ps. doesPathStartWith p (commonRoot_loop ps (c @ [cand]))" by simp
      with Some False show ?thesis by (simp add: commonRoot_loop_continue)
    qed
  qed
qed

lemma commonRoot_loop_take:
  "c = take (length c) (hd ps)
   \<Longrightarrow> commonRoot_loop ps c = take (length (commonRoot_loop ps c)) (hd ps)"
proof (induction ps c rule: commonRoot_loop.induct)
  case (1 ps c)
  let ?cand = "case elem_at ps 0 of None \<Rightarrow> None | Some first \<Rightarrow> elem_at first (length c)"
  show ?case
  proof (cases ?cand)
    case None
    then show ?thesis using "1.prems" by (auto simp add: commonRoot_loop_stop_first)
  next
    case (Some cand)
    show ?thesis
    proof (cases "list_ex (\<lambda>p. \<not> strict_equals (Some cand) (elem_at p (length c))) ps")
      case True
      with Some show ?thesis using "1.prems" by (auto simp add: commonRoot_loop_stop_mismatch)
    next
      case False
      from Some have i: "length c < length (hd ps)" and cand: "cand = hd ps ! length c"
        by (simp_all add: candidate_Some)
      have t: "c @ [cand] = take (Suc (length c)) (hd ps)"
        using "1.prems" i cand by (metis take_Suc_conv_app_nth)
      have "c @ [cand] = take (length (c @ [cand])) (hd ps)"
        by (subst length_append_singleton) (rule t)
      from "1.IH" [OF refl Some False this] Some False show ?thesis
        by (simp add: commonRoot_loop_continue)
    qed
  qed
qed

lemma commonRoot_loop_longest:
  assumes ne: "ps \<noteq> []" and q: "\<forall>p\<in>set ps. doesPathStartWith p q"
  shows "length q \<le> length (commonRoot_loop ps c)"
  using ne q
proof (induction ps c rule: commonRoot_loop.induct)
  case (1 ps c)
  let ?cand = "case elem_at ps 0 of None \<Rightarrow> None | Some first \<Rightarrow> elem_at first (length c)"
  from "1.prems" have q0: "doesPathStartWith (hd ps) q" by simp
  show ?case
  proof (cases ?cand)
    case None
    with "1.prems" have "length (hd ps) \<le> length c" by (simp add: candidate_None)
    moreover from q0 have "length q \<le> length (hd ps)" by (rule doesPathStartWith_length)
    ultimately show ?thesis using None by (simp add: commonRoot_loop_stop_first)
  next
    case (Some cand)
    show ?thesis
    proof (cases "list_ex (\<lambda>p. \<not> strict_equals (Some cand) (elem_at p (length c))) ps")
      case True
      then obtain p where p: "p \<in> set ps"
        and mis: "\<not> strict_equals (Some cand) (elem_at p (length c))"
        by (auto simp: list_ex_iff)
      have "length q \<le> length c"
      proof (rule ccontr)
        assume "\<not> length q \<le> length c"
        then have lt: "length c < length q" by simp
        from Some have i: "length c < length (hd ps)" and cand: "cand = hd ps ! length c"
          by (simp_all add: candidate_Some)
        from q0 lt have "strict_equals (Some (q ! length c)) (elem_at (hd ps) (length c))"
          by (simp add: doesPathStartWith_iff)
        with i cand have a: "strict_equals (Some cand) (Some (q ! length c))"
          by (simp add: elem_at_def strict_equals_sym)
        from "1.prems" p lt have b: "strict_equals (Some (q ! length c)) (elem_at p (length c))"
          by (simp add: doesPathStartWith_iff)
        from a b have "strict_equals (Some cand) (elem_at p (length c))"
          by (rule strict_equals_trans)
        with mis show False by simp
      qed
      with Some True show ?thesis by (simp add: commonRoot_loop_stop_mismatch)
    next
      case False
      from "1.IH" [OF refl Some False "1.prems"] Some False show ?thesis
        by (simp add: commonRoot_loop_continue)
    qed
  qed
qed

lemma commonRoot_loop_single:
  "Num NaN \<notin> set p \<Longrightarrow> c = take (length c) p \<Longrightarrow> commonRoot_loop [p] c = p"
proof (induction "[p]" c rule: commonRoot_loop.induct)
  case (1 c)
  let ?cand = "case elem_at [p] 0 of None \<Rightarrow> None | Some first \<Rightarrow> elem_at first (length c)"
  show ?case
  proof (cases ?cand)
    case None
    then have "length p \<le> length c" by (simp add: candidate_None)
    with "1.prems" have "c = p" by simp
    moreover from None have "commonRoot_loop [p] c = c" by (rule commonRoot_loop_stop_first)
    ultimately show ?thesis by simp
  next
    case (Some cand)
    then have i: "length c < length p" and cand: "cand = p ! length c"
      by (simp_all add: candidate_Some)
    from "1.prems" i cand have "Some cand \<noteq> Some (Num NaN)"
      by (metis nth_mem option.inject)
    then have "strict_equals (Some cand) (Some cand)" by (rule strict_equals_refl)
    with i cand have F: "\<not> list_ex (\<lambda>p. \<not> strict_equals (Some cand) (elem_at p (length c))) [p]"
      by (simp add: elem_at_def)
    have t: "c @ [cand] = take (Suc (length c)) p"
      using "1.prems" i cand by (metis take_Suc_conv_app_nth)
    have "c @ [cand] = take (length (c @ [cand])) p"
      by (subst length_append_singleton) (rule t)
    from "1.hyps" [OF refl Some F "1.prems"(1) this] Some F show ?thesis
      by (simp add: commonRoot_loop_continue)
  qed
qed

lemma commonRoot_prefix_of_result:
  assumes ne: "ps \<noteq> []" and q: "\<forall>p\<in>set ps. doesPathStartWith p q"
  shows "doesPathStartWith (commonRootOfPathsToProps ps) q"
proof -
  let ?r = "commonRootOfPathsToProps ps"
  have "[] = take (length ([] :: PathToProp)) (hd ps)" by simp
  from commonRoot_loop_take [OF this] have r: "?r = take (length ?r) (hd ps)"
    by (simp add: commonRootOfPathsToProps_def)
  from ne q have len: "length q \<le> length ?r"
    unfolding commonRootOfPathsToProps_def by (rule commonRoot_loop_longest)
  from ne q have q0: "doesPathStartWith (hd ps) q" by simp
  have "strict_equals (Some (q ! i)) (elem_at ?r i)" if i: "i < length q" for i
  proof -
    from i len have ir: "i < length ?r" by simp
    then have "i < length (take (length ?r) (hd ps))" using r by simp
    then have ih: "i < length (hd ps)" by simp
    from r have "?r ! i = take (length ?r) (hd ps) ! i" by simp
    with ir have "?r ! i = hd ps ! i" by simp
    with ir ih have "elem_at ?r i = elem_at (hd ps) i" by (simp add: elem_at_def)
    with q0 i show ?thesis by (simp add: doesPathStartWith_iff)
  qed
  then show ?thesis by (simp add: doesPathStartWith_iff)
qed

section \<open>Common root: the claim\<close>

text \<open>
  C3, amended. The empty collection yields the empty sequence. For every collection the
  result is a common prefix of all its paths, by the strict step equality of
  \<open>doesPathStartWith\<close>; for a non-empty collection it is the longest one: every common
  prefix \<open>q\<close> is no longer than the result and is a prefix of it. No path has to be the
  shortest, as in the source's own example, where the first path is longer than the last.
  A single path that holds no \<^verbatim>\<open>NaN\<close> step is returned step for step.
\<close>

theorem commonRootOfPathsToProps_spec:
  "commonRootOfPathsToProps [] = []
   \<and> (\<forall>p\<in>set ps. doesPathStartWith p (commonRootOfPathsToProps ps))
   \<and> (ps \<noteq> [] \<longrightarrow>
        (\<forall>q. (\<forall>p\<in>set ps. doesPathStartWith p q) \<longrightarrow>
             length q \<le> length (commonRootOfPathsToProps ps)
             \<and> doesPathStartWith (commonRootOfPathsToProps ps) q))
   \<and> (Num NaN \<notin> set p \<longrightarrow>
        commonRootOfPathsToProps [p] = p \<and> arePathsEqual (commonRootOfPathsToProps [p]) p)
   \<and> commonRootOfPathsToProps
        [[Str (js ''a''), Str (js ''b''), Str (js ''c''), Str (js ''d''), Str (js ''e'')],
         [Str (js ''a''), Str (js ''b''), Str (js ''x''), Str (js ''y''), Str (js ''z'')],
         [Str (js ''a''), Str (js ''b''), Str (js ''c'')]]
       = [Str (js ''a''), Str (js ''b'')]"
proof (intro conjI)
  show "commonRootOfPathsToProps [] = []"
    by (simp add: commonRootOfPathsToProps_def commonRoot_loop.simps elem_at_def)
  show "\<forall>p\<in>set ps. doesPathStartWith p (commonRootOfPathsToProps ps)"
    unfolding commonRootOfPathsToProps_def
    by (rule commonRoot_loop_common) (simp add: doesPathStartWith_def)
  show "ps \<noteq> [] \<longrightarrow>
        (\<forall>q. (\<forall>p\<in>set ps. doesPathStartWith p q) \<longrightarrow>
             length q \<le> length (commonRootOfPathsToProps ps)
             \<and> doesPathStartWith (commonRootOfPathsToProps ps) q)"
    using commonRoot_loop_longest [of ps _ "[]"] commonRoot_prefix_of_result [of ps]
    by (simp add: commonRootOfPathsToProps_def)
  show "Num NaN \<notin> set p \<longrightarrow>
        commonRootOfPathsToProps [p] = p \<and> arePathsEqual (commonRootOfPathsToProps [p]) p"
  proof
    assume nn: "Num NaN \<notin> set p"
    then have eq: "commonRootOfPathsToProps [p] = p"
      unfolding commonRootOfPathsToProps_def by (rule commonRoot_loop_single) simp
    from nn have "\<forall>i<length p. Some (p ! i) \<noteq> Some (Num NaN)"
      by (metis nth_mem option.inject)
    then have "arePathsEqual p p"
      by (simp add: arePathsEqual_iff strict_equals_refl)
    with eq show "commonRootOfPathsToProps [p] = p \<and> arePathsEqual (commonRootOfPathsToProps [p]) p"
      by simp
  qed
  show "commonRootOfPathsToProps
        [[Str (js ''a''), Str (js ''b''), Str (js ''c''), Str (js ''d''), Str (js ''e'')],
         [Str (js ''a''), Str (js ''b''), Str (js ''x''), Str (js ''y''), Str (js ''z'')],
         [Str (js ''a''), Str (js ''b''), Str (js ''c'')]]
       = [Str (js ''a''), Str (js ''b'')]"
    by (simp add: commonRootOfPathsToProps_def commonRoot_loop.simps elem_at_def js_def)
qed

text \<open>
  The first path \<^verbatim>\<open>['a', 1, 'c']\<close> is longer than the second \<^verbatim>\<open>['a', 0]\<close>; \<^verbatim>\<open>['a']\<close> is
  a common prefix of both. \<^verbatim>\<open>[['x']]\<close> is a single path.
\<close>

theorem commonRootOfPathsToProps_spec_witness:
  "doesPathStartWith [Str (js ''a''), Num (Finite 0)]
     (commonRootOfPathsToProps [[Str (js ''a''), Num (Finite 1), Str (js ''c'')], [Str (js ''a''), Num (Finite 0)]])
   \<and> length [Str (js ''a'')]
       \<le> length (commonRootOfPathsToProps [[Str (js ''a''), Num (Finite 1), Str (js ''c'')], [Str (js ''a''), Num (Finite 0)]])
   \<and> commonRootOfPathsToProps [[Str (js ''x'')]] = [Str (js ''x'')]"
proof -
  let ?ps = "[[Str (js ''a''), Num (Finite 1), Str (js ''c'')], [Str (js ''a''), Num (Finite 0)]]"
  have ne: "?ps \<noteq> []" by simp
  have mem: "[Str (js ''a''), Num (Finite 0)] \<in> set ?ps" by simp
  have q: "\<forall>p\<in>set ?ps. doesPathStartWith p [Str (js ''a'')]"
    by (simp add: doesPathStartWith_def elem_at_def)
  have nn: "Num NaN \<notin> set [Str (js ''x'')]" by simp
  from ne mem q nn commonRootOfPathsToProps_spec [of ?ps "[Str (js ''x'')]"]
  show ?thesis by blast
qed

text \<open>
  C3 as stated fails for a single path: \<^verbatim>\<open>commonRootOfPathsToProps([[NaN]])\<close> reads the
  candidate \<^verbatim>\<open>NaN\<close>, finds \<^verbatim>\<open>NaN !== NaN\<close> against the path itself and returns
  \<^verbatim>\<open>[]\<close>, which has not even the length of \<^verbatim>\<open>[NaN]\<close>.
\<close>

theorem commonRootOfPathsToProps_single_counterexample:
  "commonRootOfPathsToProps [[Num NaN]] = []
   \<and> length (commonRootOfPathsToProps [[Num NaN]]) \<noteq> length [Num NaN]
   \<and> \<not> arePathsEqual (commonRootOfPathsToProps [[Num NaN]]) [Num NaN]"
  by (simp add: commonRootOfPathsToProps_def commonRoot_loop.simps elem_at_def arePathsEqual_def)

section \<open>Value resolution: the loop\<close>







lemma proto_not_function: "js ''__proto__'' \<notin> set Object_prototype_functions"
  by (simp add: Object_prototype_functions_def js_def)

section \<open>Value resolution: the claims\<close>

text \<open>
  C7. With the empty path \<open>getValueByPropPath\<close> returns \<open>rootVal\<close> itself, whatever value
  it is, \<^verbatim>\<open>null\<close> and \<^verbatim>\<open>undefined\<close> included: the check of \<open>cur\<close> runs only inside the
  loop, when a step has been taken from \<open>p\<close>.
\<close>

theorem getValueByPropPath_empty_path:
  "getValueByPropPath [] rootVal = Inr rootVal
   \<and> getValueByPropPath [] JNull = Inr JNull
   \<and> getValueByPropPath [] JUndefined = Inr JUndefined"
  by (simp add: getValueByPropPath_def)

text \<open>The empty path on the primitive \<^verbatim>\<open>true\<close>.\<close>

theorem getValueByPropPath_empty_path_witness:
  "getValueByPropPath [] (JBool True) = Inr (JBool True)"
  using getValueByPropPath_empty_path [of "JBool True"] by blast







end
